theory Spec2Isabelle
  imports Complex_Main
begin

section \<open>Data model (types.ts)\<close>

text \<open>
  The records follow \<^verbatim>\<open>types.ts\<close>. Field names that would clash with HOL constants or
  with common variable names are renamed: \<^verbatim>\<open>id\<close> is \<open>nid\<close>, \<^verbatim>\<open>type\<close> is \<open>ntype\<close>,
  \<^verbatim>\<open>x\<close>/\<^verbatim>\<open>y\<close> are \<open>nx\<close>/\<open>ny\<close>. An optional field (\<^verbatim>\<open>x?: number\<close>,
  \<^verbatim>\<open>fx?: number | null\<close>) is an \<open>option\<close>; \<open>None\<close> stands for both \<^verbatim>\<open>undefined\<close> and
  \<^verbatim>\<open>null\<close>. The field \<^verbatim>\<open>year\<close> is declared \<^verbatim>\<open>number\<close>, but the code guards every read
  with \<^verbatim>\<open>year || 2000\<close>, so it is an \<open>int option\<close> here. JavaScript numbers are modelled
  as \<open>int\<close> where the program only produces integers (years, scores, xp, mastery) and as
  \<open>real\<close> for coordinates.
\<close>

datatype RelationType = CRITIQUES | EXPANDS_UPON | INFLUENCED_BY | OPPOSES | RELATES_TO

datatype NodeType = Root | Theory | Person | Concept

record ConceptNode =
  nid :: string
  label :: string
  ntype :: NodeType
  description :: string
  keyDefinition :: string
  seminalWorks :: "string list"
  academicControversy :: string
  year :: "int option"
  nx :: "real option"
  ny :: "real option"
  fx :: "real option"
  fy :: "real option"
  mastery :: int
  unlocked :: bool
  associatedTheorist :: "string option"

record ConceptLink =
  source :: string
  target :: string
  relation :: RelationType

record UserStats =
  xp :: int
  level :: int
  debatesWon :: int
  conceptsMastered :: int

text \<open>Only the fields of a drill that the application component reads are kept.\<close>

record TrainingDrill =
  drill_id :: string
  topic :: string

record BranchSuggestion =
  sg_label :: string
  sg_description :: string
  sg_type :: NodeType
  sg_associatedTheorist :: string
  sg_relation :: RelationType

section \<open>Decimal rendering of numbers in template literals\<close>

definition digit_char :: "nat \<Rightarrow> char" where
  "digit_char d = char_of (d + 48)"

text \<open>The digits are produced from the least significant one, in front of those found so far.\<close>

fun decimal_onto :: "nat \<Rightarrow> string \<Rightarrow> string" where
  "decimal_onto n found =
     (let found1 = digit_char (n mod 10) # found
      in if n div 10 = 0 then found1 else decimal_onto (n div 10) found1)"

declare decimal_onto.simps [simp del]

definition decimal :: "nat \<Rightarrow> string" where
  "decimal n = decimal_onto n []"

definition decimal_int :: "int \<Rightarrow> string" where
  "decimal_int i = (if 0 \<le> i then decimal (nat i) else CHR ''-'' # decimal (nat (- i)))"

section \<open>The knowledge expansion service (services/geminiService.ts, expandConcept)\<close>

text \<open>
  The remote model call is an input of the embedding: it either throws (network failure,
  malformed JSON) or yields a parsed object whose \<^verbatim>\<open>nodes\<close> and \<^verbatim>\<open>links\<close> members may be
  missing. \<^verbatim>\<open>expandConcept\<close> maps every thrown error to two empty lists, replaces a
  missing member by the empty list, and overwrites \<^verbatim>\<open>mastery\<close> and \<^verbatim>\<open>unlocked\<close> of every
  delivered node.
\<close>

record ExpandData =
  data_nodes :: "ConceptNode list option"
  data_links :: "ConceptLink list option"

datatype ServiceOutcome = Thrown string | Parsed ExpandData

definition or_empty :: "'a list option \<Rightarrow> 'a list" where
  "or_empty v = (case v of None \<Rightarrow> [] | Some xs \<Rightarrow> xs)"

definition expandConcept :: "ServiceOutcome \<Rightarrow> ConceptNode list \<times> ConceptLink list" where
  "expandConcept r =
     (case r of
        Thrown e \<Rightarrow> ([], [])
      | Parsed d \<Rightarrow>
          (map (\<lambda>n. n\<lparr>mastery := 0, unlocked := True\<rparr>) (or_empty (data_nodes d)),
           or_empty (data_links d)))"

section \<open>The application component (App, handlers)\<close>

datatype ViewMode = MapView | ListView

record AppState =
  nodes :: "ConceptNode list"
  links :: "ConceptLink list"
  activeNode :: "ConceptNode option"
  stats :: UserStats
  isLoading :: bool
  notification :: "string option"
  viewMode :: ViewMode
  activeDrill :: "TrainingDrill option"
  isDrillLoading :: bool

definition INITIAL_NODE :: ConceptNode where
  "INITIAL_NODE =
     \<lparr>nid = ''root'', label = ''Sociology'', ntype = Root,
      description = ''The systematic study of society and social interaction.'',
      keyDefinition = ''Sociology is the scientific study of social behavior, its origins, development, organization, and institutions.'',
      seminalWorks = [''The Rules of Sociological Method (Durkheim, 1895)'',
                      ''Economy and Society (Weber, 1922)''],
      academicControversy = ''The tension between structure (social forces) and agency (individual action).'',
      year = Some 1838, nx = Some 0, ny = Some 0, fx = None, fy = None,
      mastery = 100, unlocked = True, associatedTheorist = None\<rparr>"

definition INITIAL_STATS :: UserStats where
  "INITIAL_STATS = \<lparr>xp = 150, level = 1, debatesWon = 0, conceptsMastered = 1\<rparr>"

definition initial_state :: AppState where
  "initial_state =
     \<lparr>nodes = [INITIAL_NODE], links = [], activeNode = None, stats = INITIAL_STATS,
      isLoading = False, notification = None, viewMode = MapView, activeDrill = None,
      isDrillLoading = False\<rparr>"

definition handleNodeClick :: "ConceptNode \<Rightarrow> AppState \<Rightarrow> AppState" where
  "handleNodeClick node s = s\<lparr>activeNode := Some node\<rparr>"

text \<open>
  \<^verbatim>\<open>handleExpandMap\<close> is asynchronous. Its first part runs up to the \<^verbatim>\<open>await\<close>; its
  continuation runs when the service result arrives, on whatever the state is by then
  (the state setters are functional updates), with the active node captured at the start.
  The timers that clear the notification later are not part of the handlers' own effect.
\<close>

definition handleExpandMap_begin :: "ConceptNode \<Rightarrow> AppState \<Rightarrow> AppState" where
  "handleExpandMap_begin an s =
     s\<lparr>isLoading := True,
       notification := Some (''Consulting the archives about '' @ label an @ ''...'')\<rparr>"

definition fallback_links :: "ConceptNode \<Rightarrow> ConceptNode list \<Rightarrow> ConceptLink list" where
  "fallback_links an newNodes =
     map (\<lambda>n. \<lparr>source = nid an, target = nid n, relation = RELATES_TO\<rparr>) newNodes"

definition connectedLinks :: "ConceptNode \<Rightarrow> ConceptNode list \<Rightarrow> ConceptLink list \<Rightarrow> ConceptLink list" where
  "connectedLinks an newNodes newLinks =
     (if length newLinks > 0 then newLinks else fallback_links an newNodes)"

definition handleExpandMap_commit ::
  "ConceptNode \<Rightarrow> ConceptNode list \<times> ConceptLink list \<Rightarrow> AppState \<Rightarrow> AppState" where
  "handleExpandMap_commit an res s =
     (let newNodes = fst res; newLinks = snd res in
      (if length newNodes > 0 then
         s\<lparr>nodes := nodes s @ newNodes,
           links := links s @ connectedLinks an newNodes newLinks,
           notification := Some (''Discovered '' @ decimal (length newNodes) @ '' new concepts!''),
           stats := (stats s)\<lparr>xp := xp (stats s) + 20\<rparr>\<rparr>
       else
         s\<lparr>notification := Some ''The archives are silent on this specific path.''\<rparr>)
      \<lparr>isLoading := False\<rparr>)"

text \<open>The whole handler when nothing else happens between the request and its result.\<close>

definition handleExpandMap :: "ServiceOutcome \<Rightarrow> AppState \<Rightarrow> AppState" where
  "handleExpandMap r s =
     (case activeNode s of
        None \<Rightarrow> s
      | Some an \<Rightarrow> handleExpandMap_commit an (expandConcept r) (handleExpandMap_begin an s))"

definition handleUpdateScore :: "int \<Rightarrow> AppState \<Rightarrow> AppState" where
  "handleUpdateScore score s =
     (if score \<ge> 7 then
        (let s1 = s\<lparr>stats := (stats s)\<lparr>xp := xp (stats s) + score * 5,
                                        debatesWon := debatesWon (stats s) + 1\<rparr>\<rparr>
         in case activeNode s of
              None \<Rightarrow> s1
            | Some an \<Rightarrow>
                if mastery an < 100 then
                  s1\<lparr>nodes := map (\<lambda>n. if nid n = nid an
                                        then n\<lparr>mastery := min 100 (mastery n + 25)\<rparr> else n)
                                  (nodes s1)\<rparr>
                else s1)
      else s\<lparr>stats := (stats s)\<lparr>xp := xp (stats s) + 5\<rparr>\<rparr>)"

text \<open>
  \<^verbatim>\<open>handleBranchEvolution\<close> reads the clock (\<^verbatim>\<open>Date.now()\<close>, the parameter \<open>now\<close>) to
  build the new id. \<^verbatim>\<open>a || b\<close> and \<^verbatim>\<open>a ? b : c\<close> on a number treat \<^verbatim>\<open>undefined\<close> and
  \<^verbatim>\<open>0\<close> alike.
\<close>

definition year_or_2000 :: "int option \<Rightarrow> int" where
  "year_or_2000 v = (case v of None \<Rightarrow> 2000 | Some yr \<Rightarrow> if yr = 0 then 2000 else yr)"

definition offset_50 :: "real option \<Rightarrow> real" where
  "offset_50 v = (case v of None \<Rightarrow> 0 | Some c \<Rightarrow> if c = 0 then 0 else c + 50)"

definition evolved_id :: "nat \<Rightarrow> string" where
  "evolved_id now = ''evolved-'' @ decimal now"

definition evolved_node :: "ConceptNode \<Rightarrow> BranchSuggestion \<Rightarrow> nat \<Rightarrow> ConceptNode" where
  "evolved_node an suggestion now =
     \<lparr>nid = evolved_id now, label = sg_label suggestion, ntype = sg_type suggestion,
      description = sg_description suggestion, keyDefinition = sg_description suggestion,
      seminalWorks = [], academicControversy = ''Newly discovered connection.'',
      year = Some (year_or_2000 (year an)),
      nx = Some (offset_50 (nx an)), ny = Some (offset_50 (ny an)),
      fx = None, fy = None, mastery = 0, unlocked = True,
      associatedTheorist = Some (sg_associatedTheorist suggestion)\<rparr>"

definition evolved_link :: "ConceptNode \<Rightarrow> BranchSuggestion \<Rightarrow> nat \<Rightarrow> ConceptLink" where
  "evolved_link an suggestion now =
     \<lparr>source = nid an, target = evolved_id now, relation = sg_relation suggestion\<rparr>"

definition handleBranchEvolution :: "BranchSuggestion \<Rightarrow> nat \<Rightarrow> AppState \<Rightarrow> AppState" where
  "handleBranchEvolution suggestion now s =
     (case activeNode s of
        None \<Rightarrow> s
      | Some an \<Rightarrow>
          s\<lparr>nodes := nodes s @ [evolved_node an suggestion now],
            links := links s @ [evolved_link an suggestion now],
            notification := Some (''Debate Evolved: \"'' @ sg_label suggestion @ ''\" added to map!''),
            stats := (stats s)\<lparr>xp := xp (stats s) + 50\<rparr>\<rparr>)"

definition handleCompleteDrill :: "int \<Rightarrow> AppState \<Rightarrow> AppState" where
  "handleCompleteDrill avgScore s =
     s\<lparr>stats := (stats s)\<lparr>xp := xp (stats s) + avgScore * 10\<rparr>,
       activeDrill := None,
       notification := Some (''Drill complete! +'' @ decimal_int (avgScore * 10) @ '' XP'')\<rparr>"

text \<open>The state-updating operations of the application, as one step function.\<close>

datatype AppOp =
    Expand ServiceOutcome
  | UpdateScore int
  | BranchEvolution BranchSuggestion nat
  | CompleteDrill int
  | NodeClick ConceptNode

fun app_step :: "AppOp \<Rightarrow> AppState \<Rightarrow> AppState" where
  "app_step (Expand r) s = handleExpandMap r s"
| "app_step (UpdateScore score) s = handleUpdateScore score s"
| "app_step (BranchEvolution suggestion now) s = handleBranchEvolution suggestion now s"
| "app_step (CompleteDrill avgScore) s = handleCompleteDrill avgScore s"
| "app_step (NodeClick node) s = handleNodeClick node s"

fun op_score :: "AppOp \<Rightarrow> int" where
  "op_score (UpdateScore score) = score"
| "op_score (CompleteDrill avgScore) = avgScore"
| "op_score _ = 0"

definition mastery_ok :: "AppState \<Rightarrow> bool" where
  "mastery_ok s = list_all (\<lambda>n. 0 \<le> mastery n \<and> mastery n \<le> 100) (nodes s)"

section \<open>Graph invariants and runs\<close>

definition node_ids :: "AppState \<Rightarrow> string list" where
  "node_ids s = map nid (nodes s)"

definition links_ok :: "AppState \<Rightarrow> bool" where
  "links_ok s =
     list_all (\<lambda>l. source l \<in> set (node_ids s) \<and> target l \<in> set (node_ids s)) (links s)"

text \<open>What an operation appends to the node list and to the link list.\<close>

fun inserted_nodes :: "AppOp \<Rightarrow> AppState \<Rightarrow> ConceptNode list" where
  "inserted_nodes (Expand r) s =
     (case activeNode s of None \<Rightarrow> [] | Some an \<Rightarrow> fst (expandConcept r))"
| "inserted_nodes (BranchEvolution suggestion now) s =
     (case activeNode s of None \<Rightarrow> [] | Some an \<Rightarrow> [evolved_node an suggestion now])"
| "inserted_nodes _ s = []"

fun appended_links :: "AppOp \<Rightarrow> AppState \<Rightarrow> ConceptLink list" where
  "appended_links (Expand r) s =
     (case activeNode s of
        None \<Rightarrow> []
      | Some an \<Rightarrow>
          if fst (expandConcept r) = [] then []
          else connectedLinks an (fst (expandConcept r)) (snd (expandConcept r)))"
| "appended_links (BranchEvolution suggestion now) s =
     (case activeNode s of None \<Rightarrow> [] | Some an \<Rightarrow> [evolved_link an suggestion now])"
| "appended_links _ s = []"

fun is_insertion :: "AppOp \<Rightarrow> bool" where
  "is_insertion (Expand r) = True"
| "is_insertion (BranchEvolution suggestion now) = True"
| "is_insertion _ = False"

fun run :: "AppOp list \<Rightarrow> AppState \<Rightarrow> AppState" where
  "run [] s = s"
| "run (op # ops) s = run ops (app_step op s)"

text \<open>
  A run inserts only fresh ids when, at each step, the ids of the nodes the step appends
  are pairwise different and none of them is already in the node list.
\<close>

fun fresh_run :: "AppOp list \<Rightarrow> AppState \<Rightarrow> bool" where
  "fresh_run [] s = True"
| "fresh_run (op # ops) s =
     (distinct (map nid (inserted_nodes op s)) \<and>
      list_all (\<lambda>n. nid n \<notin> set (node_ids s)) (inserted_nodes op s) \<and>
      fresh_run ops (app_step op s))"

text \<open>Inputs used in the concrete evaluations below.\<close>

definition active_root :: AppState where
  "active_root = handleNodeClick INITIAL_NODE initial_state"

definition marx :: ConceptNode where
  "marx = \<lparr>nid = ''marx'', label = ''Karl Marx'', ntype = Person,
           description = ''Theorist of class conflict.'',
           keyDefinition = ''Historical materialism.'',
           seminalWorks = [''Das Kapital (1867)''],
           academicControversy = ''Economic determinism.'',
           year = Some 1867, nx = None, ny = None, fx = None, fy = None,
           mastery = 0, unlocked = True, associatedTheorist = Some ''Karl Marx''\<rparr>"

definition root_again :: ConceptNode where
  "root_again = marx\<lparr>nid := ''root'', label := ''Sociology (again)''\<rparr>"

definition repeats_root :: ServiceOutcome where
  "repeats_root = Parsed \<lparr>data_nodes = Some [root_again], data_links = Some []\<rparr>"

definition dangling_link :: ServiceOutcome where
  "dangling_link =
     Parsed \<lparr>data_nodes = Some [marx],
             data_links = Some [\<lparr>source = ''ghost'', target = ''marx'', relation = CRITIQUES\<rparr>,
                                \<lparr>source = ''root'', target = ''marx'', relation = EXPANDS_UPON\<rparr>]\<rparr>"

definition only_marx :: ServiceOutcome where
  "only_marx = Parsed \<lparr>data_nodes = Some [marx], data_links = None\<rparr>"

section \<open>The map component (MindMap)\<close>

text \<open>
  The component configures a d3 force simulation. The d3 library is not part of the
  repository; the few library operations the component calls are written out below as d3
  computes them with the settings the component uses: a linear scale over two points
  without clamping, the link force's resolution of endpoint ids, the simulation's
  temperature and timer, the initialisation of the node objects, the per-tick position
  update with pins, and the gesture count of the drag behaviour.
\<close>

subsection \<open>Timeline scale and positional forces\<close>

definition normalize :: "real \<Rightarrow> real \<Rightarrow> real \<Rightarrow> real" where
  "normalize a b v = (v - a) / (b - a)"

definition interpolateNumber :: "real \<Rightarrow> real \<Rightarrow> real \<Rightarrow> real" where
  "interpolateNumber a b t = a * (1 - t) + b * t"

definition scaleLinear :: "real \<times> real \<Rightarrow> real \<times> real \<Rightarrow> real \<Rightarrow> real" where
  "scaleLinear d r v = interpolateNumber (fst r) (snd r) (normalize (fst d) (snd d) v)"

definition timeScale :: "real \<Rightarrow> real \<Rightarrow> real" where
  "timeScale width = scaleLinear (1800, 2025) (- width / 2 + 50, width / 2 - 50)"

datatype MapMode = network | timeline

text \<open>The target and the strength of the force named \<^verbatim>\<open>x\<close> in either mode.\<close>

definition forceX_target :: "MapMode \<Rightarrow> real \<Rightarrow> 'a ConceptNode_scheme \<Rightarrow> real" where
  "forceX_target mode width d =
     (case mode of
        timeline \<Rightarrow> timeScale width (of_int (year_or_2000 (year d)))
      | network \<Rightarrow> width / 2)"

definition forceX_strength :: "MapMode \<Rightarrow> real" where
  "forceX_strength mode = (case mode of timeline \<Rightarrow> 8 / 10 | network \<Rightarrow> 1 / 100)"

subsection \<open>Collision radius and drawn radius\<close>

definition collide_radius :: "'a ConceptNode_scheme \<Rightarrow> real" where
  "collide_radius d = 70"

text \<open>The collision force treats two nodes as overlapping below the sum of their radii.\<close>

definition collide_separation :: "'a ConceptNode_scheme \<Rightarrow> 'a ConceptNode_scheme \<Rightarrow> real" where
  "collide_separation a b = collide_radius a + collide_radius b"

definition circle_radius :: "'a ConceptNode_scheme \<Rightarrow> real" where
  "circle_radius d = (if ntype d = Root then 40 else 30)"

subsection \<open>Links: endpoint resolution and drawing attributes\<close>



text \<open>
  A link is committed with the ids of its endpoints. The link force works on the very link
  objects of the application's array: at every layout it replaces an endpoint that is still
  an id by the node object with this id (the last node of the list when an id occurs twice)
  and throws when the id is unknown; an endpoint that is already an object is left alone,
  even when the node list by now holds another object under that id. The other members of
  the link object are never written.
\<close>

datatype Endpoint = Id string | Obj ConceptNode

record LinkObject =
  source_end :: Endpoint
  target_end :: Endpoint
  link_relation :: RelationType

text \<open>A link as committed, before any layout has touched it.\<close>

definition link_object :: "ConceptLink \<Rightarrow> LinkObject" where
  "link_object l =
     \<lparr>source_end = Id (source l), target_end = Id (target l), link_relation = relation l\<rparr>"

definition nodeById :: "ConceptNode list \<Rightarrow> string \<Rightarrow> ConceptNode option" where
  "nodeById ns k = find (\<lambda>n. nid n = k) (rev ns)"

definition resolve :: "ConceptNode list \<Rightarrow> Endpoint \<Rightarrow> string + Endpoint" where
  "resolve ns e =
     (case e of
        Obj n \<Rightarrow> Inr (Obj n)
      | Id k \<Rightarrow>
          (case nodeById ns k of
             None \<Rightarrow> Inl (''node not found: '' @ k)
           | Some n \<Rightarrow> Inr (Obj n)))"

fun forceLink_initialize :: "ConceptNode list \<Rightarrow> LinkObject list \<Rightarrow> string + LinkObject list" where
  "forceLink_initialize ns [] = Inr []"
| "forceLink_initialize ns (l # ls) =
     (case resolve ns (source_end l) of
        Inl e \<Rightarrow> Inl e
      | Inr a \<Rightarrow>
          (case resolve ns (target_end l) of
             Inl e \<Rightarrow> Inl e
           | Inr b \<Rightarrow>
               (case forceLink_initialize ns ls of
                  Inl e \<Rightarrow> Inl e
                | Inr rest \<Rightarrow> Inr (l\<lparr>source_end := a, target_end := b\<rparr> # rest))))"



subsection \<open>Simulation, ticks and drag gestures\<close>

record Simulation =
  alpha :: real
  alphaMin :: real
  alphaDecay :: real
  alphaTarget :: real
  velocityDecay :: real
  running :: bool
  ticks :: nat

definition set_alphaTarget :: "real \<Rightarrow> Simulation \<Rightarrow> Simulation" where
  "set_alphaTarget v sim = sim\<lparr>alphaTarget := v\<rparr>"

definition restart :: "Simulation \<Rightarrow> Simulation" where
  "restart sim = sim\<lparr>running := True\<rparr>"

definition stop :: "Simulation \<Rightarrow> Simulation" where
  "stop sim = sim\<lparr>running := False\<rparr>"

text \<open>A simulation node is a concept node with the velocity members the simulation adds.\<close>

record SimNode = ConceptNode +
  vx :: real
  vy :: real

text \<open>
  What the configured forces do to one node during one tick is an input: forces change the
  velocity, and the centering force shifts the position. No force writes the pin.
\<close>

record ForceEffect =
  dvx :: real
  dvy :: real
  shift_x :: real
  shift_y :: real

definition apply_forces :: "ForceEffect \<Rightarrow> SimNode \<Rightarrow> SimNode" where
  "apply_forces e d =
     d\<lparr>nx := map_option (\<lambda>c. c + shift_x e) (nx d),
       ny := map_option (\<lambda>c. c + shift_y e) (ny d),
       vx := vx d + dvx e,
       vy := vy d + dvy e\<rparr>"

definition integrate :: "real \<Rightarrow> SimNode \<Rightarrow> SimNode" where
  "integrate vd d =
     (let d1 = (case fx d of
                  None \<Rightarrow> d\<lparr>vx := vx d * vd, nx := map_option (\<lambda>c. c + vx d * vd) (nx d)\<rparr>
                | Some f \<Rightarrow> d\<lparr>nx := Some f, vx := 0\<rparr>)
      in (case fy d1 of
            None \<Rightarrow> d1\<lparr>vy := vy d1 * vd, ny := map_option (\<lambda>c. c + vy d1 * vd) (ny d1)\<rparr>
          | Some f \<Rightarrow> d1\<lparr>ny := Some f, vy := 0\<rparr>))"

definition tick_node :: "ForceEffect \<Rightarrow> real \<Rightarrow> SimNode \<Rightarrow> SimNode" where
  "tick_node e vd d = integrate vd (apply_forces e d)"

text \<open>
  The timer callback of a running simulation: one tick, then the simulation stops itself
  once the temperature is below its minimum.
\<close>

definition step :: "Simulation \<Rightarrow> Simulation" where
  "step sim =
     (let a = alpha sim + (alphaTarget sim - alpha sim) * alphaDecay sim;
          sim1 = sim\<lparr>alpha := a, ticks := ticks sim + 1\<rparr>
      in if a < alphaMin sim1 then stop sim1 else sim1)"

record DragEvent =
  active :: nat
  ev_x :: real
  ev_y :: real

definition dragstarted ::
  "DragEvent \<Rightarrow> Simulation \<times> 'a ConceptNode_scheme \<Rightarrow> Simulation \<times> 'a ConceptNode_scheme" where
  "dragstarted event sd =
     ((if active event = 0 then restart (set_alphaTarget (3 / 10) (fst sd)) else fst sd),
      (snd sd)\<lparr>fx := nx (snd sd), fy := ny (snd sd)\<rparr>)"

definition dragged ::
  "DragEvent \<Rightarrow> Simulation \<times> 'a ConceptNode_scheme \<Rightarrow> Simulation \<times> 'a ConceptNode_scheme" where
  "dragged event sd =
     (fst sd, (snd sd)\<lparr>fx := Some (ev_x event), fy := Some (ev_y event)\<rparr>)"

definition dragended ::
  "DragEvent \<Rightarrow> Simulation \<times> 'a ConceptNode_scheme \<Rightarrow> Simulation \<times> 'a ConceptNode_scheme" where
  "dragended event sd =
     ((if active event = 0 then set_alphaTarget 0 (fst sd) else fst sd),
      (snd sd)\<lparr>fx := None, fy := None\<rparr>)"

text \<open>
  The node objects of the application's array are the objects the simulation moves and the
  drag handlers pin, so they are kept in a store, and the array holds their addresses.
  Every run of the component's effect creates a simulation and a drag behaviour of its own
  over the array it is given; the closures of an earlier run stay alive after its cleanup,
  and a gesture that began on one of its elements goes on calling them, on the object it
  began on. A run is recorded with its simulation, the objects of the gestures in progress
  (their number is what the drag behaviour passes to the handlers as \<^verbatim>\<open>event.active\<close>: the
  count before a start, the count after an end) and the node objects it was given.
\<close>

type_synonym addr = nat

record Mount =
  simulation :: Simulation
  gestures :: "addr list"
  bound :: "addr list"

record Page =
  objects :: "addr \<Rightarrow> SimNode"
  next_addr :: addr
  nodes_prop :: "addr list"
  active_ref :: "addr option"
  mounts :: "Mount list"

text \<open>
  A new simulation starts at temperature 1 with its timer running (d3's defaults, the decay
  rounded to four digits). It moves a pinned node to its pin and gives a node without a
  position its place on d3's spiral; the spiral, a function of the node's index, is an
  input here.
\<close>

definition fresh_simulation :: Simulation where
  "fresh_simulation =
     \<lparr>alpha = 1, alphaMin = 1 / 1000, alphaDecay = 228 / 10000, alphaTarget = 0,
      velocityDecay = 6 / 10, running = True, ticks = 0\<rparr>"

definition initializeNode :: "(nat \<Rightarrow> real \<times> real) \<Rightarrow> nat \<Rightarrow> SimNode \<Rightarrow> SimNode" where
  "initializeNode spiral i d =
     (let d1 = (case fx d of None \<Rightarrow> d | Some f \<Rightarrow> d\<lparr>nx := Some f\<rparr>);
          d2 = (case fy d1 of None \<Rightarrow> d1 | Some f \<Rightarrow> d1\<lparr>ny := Some f\<rparr>)
      in if nx d2 = None \<or> ny d2 = None then
           d2\<lparr>nx := Some (fst (spiral i)), ny := Some (snd (spiral i))\<rparr>
         else d2)"

fun initializeNodes ::
  "(nat \<Rightarrow> real \<times> real) \<Rightarrow> nat \<Rightarrow> addr list \<Rightarrow> (addr \<Rightarrow> SimNode) \<Rightarrow> (addr \<Rightarrow> SimNode)" where
  "initializeNodes spiral i [] h = h"
| "initializeNodes spiral i (a # as) h =
     initializeNodes spiral (i + 1) as (h(a := initializeNode spiral i (h a)))"

definition run_effect :: "(nat \<Rightarrow> real \<times> real) \<Rightarrow> Page \<Rightarrow> Page" where
  "run_effect spiral P =
     P\<lparr>objects := initializeNodes spiral 0 (nodes_prop P) (objects P),
       mounts := mounts P @ [\<lparr>simulation = fresh_simulation, gestures = [], bound = nodes_prop P\<rparr>]\<rparr>"

definition cleanup :: "Page \<Rightarrow> Page" where
  "cleanup P =
     (if mounts P = [] then P
      else P\<lparr>mounts := (mounts P)[length (mounts P) - 1 :=
                 (last (mounts P))\<lparr>simulation := stop (simulation (last (mounts P)))\<rparr>]\<rparr>)"

text \<open>
  The application's updates of the nodes array, on the objects. \<^verbatim>\<open>handleUpdateScore\<close> maps
  the array and puts a copy, with all members of the original and the raised mastery, in
  the place of every node with the active node's id; the insertions append new objects and
  keep the old ones.
\<close>

fun raise_mastery ::
  "string \<Rightarrow> addr list \<Rightarrow> (addr \<Rightarrow> SimNode) \<Rightarrow> addr \<Rightarrow> addr list \<times> (addr \<Rightarrow> SimNode) \<times> addr" where
  "raise_mastery k [] h fresh = ([], h, fresh)"
| "raise_mastery k (a # as) h fresh =
     (if nid (h a) = k then
        (let r = raise_mastery k as
                   (h(fresh := (h a)\<lparr>mastery := min 100 (mastery (h a) + 25)\<rparr>)) (fresh + 1)
         in (fresh # fst r, snd r))
      else
        (let r = raise_mastery k as h fresh in (a # fst r, snd r)))"

definition handleUpdateScore_objects :: "int \<Rightarrow> Page \<Rightarrow> Page" where
  "handleUpdateScore_objects score P =
     (if score \<ge> 7 then
        (case active_ref P of
           None \<Rightarrow> P
         | Some an \<Rightarrow>
             if mastery (objects P an) < 100 then
               (let r = raise_mastery (nid (objects P an)) (nodes_prop P) (objects P) (next_addr P)
                in P\<lparr>nodes_prop := fst r, objects := fst (snd r), next_addr := snd (snd r)\<rparr>)
             else P)
      else P)"

fun allocate ::
  "ConceptNode list \<Rightarrow> (addr \<Rightarrow> SimNode) \<Rightarrow> addr \<Rightarrow> addr list \<times> (addr \<Rightarrow> SimNode) \<times> addr" where
  "allocate [] h fresh = ([], h, fresh)"
| "allocate (n # ns) h fresh =
     (let r = allocate ns (h(fresh := ConceptNode.extend n \<lparr>vx = 0, vy = 0\<rparr>)) (fresh + 1)
      in (fresh # fst r, snd r))"

definition append_nodes :: "ConceptNode list \<Rightarrow> Page \<Rightarrow> Page" where
  "append_nodes ns P =
     (let r = allocate ns (objects P) (next_addr P)
      in P\<lparr>nodes_prop := nodes_prop P @ fst r, objects := fst (snd r), next_addr := snd (snd r)\<rparr>)"

text \<open>The value of a node object, and the nodes array as the list of these values.\<close>

definition node_value :: "SimNode \<Rightarrow> ConceptNode" where
  "node_value d = ConceptNode.truncate d"

definition page_nodes :: "Page \<Rightarrow> ConceptNode list" where
  "page_nodes P = map (\<lambda>a. node_value (objects P a)) (nodes_prop P)"

text \<open>
  The events of the page: gestures (with the effect run whose handlers they call and the
  node object they are on), the timer callback of a run's simulation with what the forces
  do to each object, the cleanup of the latest run, a run of the effect, a click on a node,
  a debate score, and an insertion of nodes. A gesture starts on an element of a run, which
  is bound to one of the run's node objects; its moves and its end arrive only while it is
  in progress. After every change of the nodes array the cleanup of the latest run and a
  new run of the effect follow.
\<close>

datatype MapEvent =
    GestureStart nat addr real real
  | GestureMove nat addr real real
  | GestureEnd nat addr real real
  | TimerFire nat "addr \<Rightarrow> ForceEffect"
  | Cleanup
  | Effect "nat \<Rightarrow> real \<times> real"
  | NodeClicked addr
  | ScoreUpdated int
  | NodesAppended "ConceptNode list"

fun map_step :: "MapEvent \<Rightarrow> Page \<Rightarrow> Page" where
  "map_step (GestureStart k a px py) P =
     (if k < length (mounts P) \<and> a \<in> set (bound (mounts P ! k)) then
        (let mk = mounts P ! k;
             r = dragstarted \<lparr>active = length (gestures mk), ev_x = px, ev_y = py\<rparr>
                   (simulation mk, objects P a)
         in P\<lparr>objects := (objects P)(a := snd r),
              mounts := (mounts P)[k := mk\<lparr>simulation := fst r, gestures := a # gestures mk\<rparr>]\<rparr>)
      else P)"
| "map_step (GestureMove k a px py) P =
     (if k < length (mounts P) \<and> a \<in> set (gestures (mounts P ! k)) then
        (let mk = mounts P ! k;
             r = dragged \<lparr>active = length (gestures mk), ev_x = px, ev_y = py\<rparr>
                   (simulation mk, objects P a)
         in P\<lparr>objects := (objects P)(a := snd r),
              mounts := (mounts P)[k := mk\<lparr>simulation := fst r\<rparr>]\<rparr>)
      else P)"
| "map_step (GestureEnd k a px py) P =
     (if k < length (mounts P) \<and> a \<in> set (gestures (mounts P ! k)) then
        (let mk = mounts P ! k;
             rest = remove1 a (gestures mk);
             r = dragended \<lparr>active = length rest, ev_x = px, ev_y = py\<rparr>
                   (simulation mk, objects P a)
         in P\<lparr>objects := (objects P)(a := snd r),
              mounts := (mounts P)[k := mk\<lparr>simulation := fst r, gestures := rest\<rparr>]\<rparr>)
      else P)"
| "map_step (TimerFire k e) P =
     (if k < length (mounts P) \<and> running (simulation (mounts P ! k)) then
        (let mk = mounts P ! k
         in P\<lparr>objects := fold (\<lambda>a h. h(a := tick_node (e a) (velocityDecay (simulation mk)) (h a)))
                             (bound mk) (objects P),
              mounts := (mounts P)[k := mk\<lparr>simulation := step (simulation mk)\<rparr>]\<rparr>)
      else P)"
| "map_step Cleanup P = cleanup P"
| "map_step (Effect spiral) P = run_effect spiral P"
| "map_step (NodeClicked a) P = P\<lparr>active_ref := Some a\<rparr>"
| "map_step (ScoreUpdated score) P = handleUpdateScore_objects score P"
| "map_step (NodesAppended ns) P = append_nodes ns P"

fun map_run :: "MapEvent list \<Rightarrow> Page \<Rightarrow> Page" where
  "map_run [] P = P"
| "map_run (ev # evs) P = map_run evs (map_step ev P)"

text \<open>
  The cleanup of a run of the effect is followed at once by the removal of the elements it
  drew (the effect runs again, or the component is unmounted), so no gesture can start on
  them any more. Timer callbacks and the moves and ends of gestures already in progress,
  which are listened for on the window, can still arrive, and so can every event of later
  runs.
\<close>

fun after_teardown :: "nat \<Rightarrow> MapEvent \<Rightarrow> bool" where
  "after_teardown k (GestureStart j a px py) = (j \<noteq> k)"
| "after_teardown k _ = True"

definition setViewMode :: "ViewMode \<Rightarrow> AppState \<Rightarrow> AppState" where
  "setViewMode v s = s\<lparr>viewMode := v\<rparr>"

definition sim_root :: SimNode where
  "sim_root = ConceptNode.extend INITIAL_NODE \<lparr>vx = 0, vy = 0\<rparr>"

definition sim_marx :: SimNode where
  "sim_marx = ConceptNode.extend (marx\<lparr>nx := Some 12, ny := Some (- 7)\<rparr>) \<lparr>vx = 3, vy = - 2\<rparr>"

text \<open>The root node and one further node, laid out once; no effect has run yet.\<close>

definition two_nodes :: Page where
  "two_nodes =
     \<lparr>objects = (\<lambda>a. if a = 1 then sim_marx else sim_root), next_addr = 2,
      nodes_prop = [0, 1], active_ref = None, mounts = []\<rparr>"

definition weber :: ConceptNode where
  "weber = marx\<lparr>nid := ''weber'', label := ''Max Weber'', year := Some 1905,
                 associatedTheorist := Some ''Max Weber''\<rparr>"


definition push_right :: ForceEffect where
  "push_right = \<lparr>dvx = 40, dvy = 0, shift_x = 5, shift_y = 0\<rparr>"

text \<open>
  A drag of the second node, which is the active node of a debate: the gesture starts and
  moves, a debate score of 9 arrives, the effect runs again over the changed array, and the
  gesture moves once more and ends; then the new simulation ticks. The second trace is the
  same drag with an insertion of a node in the place of the score.
\<close>

definition on_a_line :: "nat \<Rightarrow> real \<times> real" where
  "on_a_line i = (10 * real i, 0)"

definition drag_across_score :: "MapEvent list" where
  "drag_across_score =
     [Effect on_a_line, NodeClicked 1, GestureStart 0 1 12 (- 7), GestureMove 0 1 3 4,
      ScoreUpdated 9, Cleanup, Effect on_a_line,
      GestureMove 0 1 5 6, GestureEnd 0 1 5 6, TimerFire 1 (\<lambda>a. push_right)]"

definition drag_across_insertion :: "MapEvent list" where
  "drag_across_insertion =
     [Effect on_a_line, NodeClicked 1, GestureStart 0 1 12 (- 7), GestureMove 0 1 3 4,
      NodesAppended [weber], Cleanup, Effect on_a_line,
      GestureMove 0 1 5 6, GestureEnd 0 1 5 6, TimerFire 1 (\<lambda>a. push_right)]"

text \<open>A page whose map has ticked once and has a gesture in progress on the second node.\<close>

definition dragging :: Page where
  "dragging =
     map_run [Effect on_a_line, GestureStart 0 1 12 (- 7), TimerFire 0 (\<lambda>a. push_right)] two_nodes"

text \<open>An expansion is requested on the root node, then the user switches to the list view.\<close>

definition pending_in_list_view :: AppState where
  "pending_in_list_view = setViewMode ListView (handleExpandMap_begin INITIAL_NODE active_root)"

section \<open>Failed and empty expansions\<close>

lemma expandConcept_Thrown: "expandConcept (Thrown e) = ([], [])"
  by (simp add: expandConcept_def)

lemma commit_no_nodes:
  "fst res = [] \<Longrightarrow>
     nodes (handleExpandMap_commit an res s) = nodes s \<and>
     links (handleExpandMap_commit an res s) = links s \<and>
     stats (handleExpandMap_commit an res s) = stats s"
  by (simp add: handleExpandMap_commit_def Let_def)

text \<open>
  C9. If the expansion service throws (the error is caught and turned into empty node and
  link lists) or the expansion yields no new nodes, then the expansion operation leaves the
  node list, the link list and the user's statistics, xp included, exactly as they were.
\<close>

theorem expand_failure_no_change:
  assumes "(\<exists>e. r = Thrown e) \<or> fst (expandConcept r) = []"
  shows "(\<forall>e. r = Thrown e \<longrightarrow> expandConcept r = ([], [])) \<and>
         nodes (handleExpandMap r s) = nodes s \<and>
         links (handleExpandMap r s) = links s \<and>
         stats (handleExpandMap r s) = stats s \<and>
         xp (stats (handleExpandMap r s)) = xp (stats s)"
proof -
  from assms have e: "fst (expandConcept r) = []"
    by (auto simp: expandConcept_Thrown)
  have thrown: "\<forall>e. r = Thrown e \<longrightarrow> expandConcept r = ([], [])"
    by (simp add: expandConcept_Thrown)
  show ?thesis
  proof (cases "activeNode s")
    case None
    then show ?thesis using thrown by (simp add: handleExpandMap_def)
  next
    case (Some an)
    have "nodes (handleExpandMap_begin an s) = nodes s"
      and "links (handleExpandMap_begin an s) = links s"
      and "stats (handleExpandMap_begin an s) = stats s"
      by (simp_all add: handleExpandMap_begin_def)
    then show ?thesis
      using Some thrown commit_no_nodes [OF e, of an "handleExpandMap_begin an s"]
      by (simp add: handleExpandMap_def)
  qed
qed

theorem expand_failure_no_change_witness:
  "expandConcept (Thrown ''503'') = ([], []) \<and>
   nodes (handleExpandMap (Thrown ''503'') (handleNodeClick INITIAL_NODE initial_state))
     = [INITIAL_NODE] \<and>
   links (handleExpandMap (Thrown ''503'') (handleNodeClick INITIAL_NODE initial_state)) = [] \<and>
   xp (stats (handleExpandMap (Thrown ''503'') (handleNodeClick INITIAL_NODE initial_state)))
     = 150"
  using expand_failure_no_change [of "Thrown ''503''" "handleNodeClick INITIAL_NODE initial_state"]
  by (simp add: expandConcept_Thrown handleNodeClick_def initial_state_def INITIAL_STATS_def)

section \<open>Experience points and mastery\<close>

lemma expandConcept_mastery:
  "list_all (\<lambda>n. 0 \<le> mastery n \<and> mastery n \<le> 100) (fst (expandConcept r))"
  by (cases r) (simp_all add: expandConcept_def list_all_iff)

lemma handleExpandMap_xp: "xp (stats s) \<le> xp (stats (handleExpandMap r s))"
  by (cases "activeNode s")
     (simp_all add: handleExpandMap_def handleExpandMap_commit_def handleExpandMap_begin_def Let_def)

lemma handleExpandMap_mastery:
  assumes "mastery_ok s"
  shows "mastery_ok (handleExpandMap r s)"
proof (cases "activeNode s")
  case None
  then show ?thesis using assms by (simp add: handleExpandMap_def)
next
  case (Some an)
  then show ?thesis
    using assms expandConcept_mastery [of r]
    by (simp add: handleExpandMap_def handleExpandMap_commit_def handleExpandMap_begin_def
        Let_def mastery_ok_def)
qed

lemma handleUpdateScore_xp: "xp (stats s) \<le> xp (stats (handleUpdateScore score s))"
  by (cases "activeNode s") (simp_all add: handleUpdateScore_def Let_def)

lemma handleUpdateScore_mastery:
  assumes "mastery_ok s"
  shows "mastery_ok (handleUpdateScore score s)"
proof (cases "activeNode s")
  case None
  then show ?thesis using assms by (simp add: handleUpdateScore_def Let_def mastery_ok_def)
next
  case (Some an)
  have "list_all (\<lambda>n. 0 \<le> mastery n \<and> mastery n \<le> 100)
          (map (\<lambda>n. if nid n = nid an then n\<lparr>mastery := min 100 (mastery n + 25)\<rparr> else n)
               (nodes s))"
    using assms by (auto simp: mastery_ok_def list_all_iff)
  then show ?thesis
    using Some assms by (simp add: handleUpdateScore_def Let_def mastery_ok_def)
qed

lemma handleBranchEvolution_xp:
  "xp (stats s) \<le> xp (stats (handleBranchEvolution suggestion now s))"
  by (cases "activeNode s") (simp_all add: handleBranchEvolution_def)

lemma handleBranchEvolution_mastery:
  "mastery_ok s \<Longrightarrow> mastery_ok (handleBranchEvolution suggestion now s)"
  by (cases "activeNode s")
     (simp_all add: handleBranchEvolution_def mastery_ok_def evolved_node_def)

lemma handleCompleteDrill_xp:
  "0 \<le> avgScore \<Longrightarrow> xp (stats s) \<le> xp (stats (handleCompleteDrill avgScore s))"
  by (simp add: handleCompleteDrill_def)

lemma handleCompleteDrill_mastery:
  "mastery_ok s \<Longrightarrow> mastery_ok (handleCompleteDrill avgScore s)"
  by (simp add: handleCompleteDrill_def mastery_ok_def)

text \<open>
  C10. For every state-updating operation (expansion, debate-turn scoring, branch evolution,
  drill completion) whose score input is non-negative, the user's xp after the operation is
  at least the xp before it; and if every node's mastery lies in [0, 100] before the
  operation, every node's mastery lies in [0, 100] after it.
\<close>

theorem xp_monotone_mastery_bounded:
  assumes "0 \<le> op_score op"
  shows "xp (stats s) \<le> xp (stats (app_step op s)) \<and>
         (mastery_ok s \<longrightarrow> mastery_ok (app_step op s))"
proof (cases op)
  case (Expand r)
  then show ?thesis by (simp add: handleExpandMap_xp handleExpandMap_mastery)
next
  case (UpdateScore score)
  then show ?thesis by (simp add: handleUpdateScore_xp handleUpdateScore_mastery)
next
  case (BranchEvolution suggestion now)
  then show ?thesis by (simp add: handleBranchEvolution_xp handleBranchEvolution_mastery)
next
  case (CompleteDrill avgScore)
  then show ?thesis
    using assms by (simp add: handleCompleteDrill_xp handleCompleteDrill_mastery)
next
  case (NodeClick node)
  then show ?thesis by (simp add: handleNodeClick_def mastery_ok_def)
qed

theorem xp_monotone_mastery_bounded_witness:
  "(0::int) \<le> op_score (UpdateScore 9) \<and>
   mastery_ok (handleNodeClick INITIAL_NODE initial_state) \<and>
   xp (stats (app_step (UpdateScore 9) (handleNodeClick INITIAL_NODE initial_state))) = 195 \<and>
   mastery_ok (app_step (UpdateScore 9) (handleNodeClick INITIAL_NODE initial_state))"
  using xp_monotone_mastery_bounded
          [of "UpdateScore 9" "handleNodeClick INITIAL_NODE initial_state"]
  by (simp add: handleNodeClick_def initial_state_def INITIAL_STATS_def INITIAL_NODE_def
      mastery_ok_def handleUpdateScore_def Let_def)

section \<open>Node insertion\<close>

lemma nodes_app_step_insertion:
  "is_insertion op \<Longrightarrow> nodes (app_step op s) = nodes s @ inserted_nodes op s"
  by (cases op; cases "activeNode s")
     (simp_all add: handleExpandMap_def handleExpandMap_commit_def handleExpandMap_begin_def
        handleBranchEvolution_def Let_def)

lemma nid_map_mastery:
  "map nid (map (\<lambda>n. if nid n = k then n\<lparr>mastery := f n\<rparr> else n) ns) = map nid ns"
  by (induction ns) simp_all

lemma node_ids_app_step:
  "node_ids (app_step op s) = node_ids s @ map nid (inserted_nodes op s)"
proof (cases "is_insertion op")
  case True
  then show ?thesis by (simp add: node_ids_def nodes_app_step_insertion)
next
  case False
  then show ?thesis
    by (cases op; cases "activeNode s")
       (simp_all add: node_ids_def handleUpdateScore_def handleCompleteDrill_def
          handleNodeClick_def Let_def nid_map_mastery)
qed

lemma distinct_app_step:
  "distinct (node_ids (app_step op s)) \<longleftrightarrow>
     distinct (node_ids s) \<and> distinct (map nid (inserted_nodes op s)) \<and>
     list_all (\<lambda>n. nid n \<notin> set (node_ids s)) (inserted_nodes op s)"
  by (auto simp: node_ids_app_step list_all_iff)

lemma distinct_run:
  "distinct (node_ids (run ops s)) \<longleftrightarrow> distinct (node_ids s) \<and> fresh_run ops s"
proof (induction ops arbitrary: s)
  case Nil
  show ?case by simp
next
  case (Cons op ops)
  show ?case
    by (simp add: Cons.IH distinct_app_step)
qed

lemma take_run_insertions:
  "list_all is_insertion ops \<Longrightarrow> take (length (nodes s)) (nodes (run ops s)) = nodes s"
proof (induction ops arbitrary: s)
  case Nil
  show ?case by simp
next
  case (Cons op ops)
  then have ins: "is_insertion op" and rest: "list_all is_insertion ops" by simp_all
  have "take (length (nodes s)) (nodes (run ops (app_step op s)))
          = take (length (nodes s))
              (take (length (nodes (app_step op s))) (nodes (run ops (app_step op s))))"
    by (simp add: nodes_app_step_insertion [OF ins] min_def)
  also have "\<dots> = take (length (nodes s)) (nodes (app_step op s))"
    by (simp only: Cons.IH [OF rest])
  also have "\<dots> = nodes s"
    by (simp add: nodes_app_step_insertion [OF ins])
  finally show ?case by simp
qed

text \<open>
  C1 as stated fails: an expansion whose result repeats the id \<^verbatim>\<open>root\<close> is committed, not
  rejected, and the node list then holds two nodes with that id.
\<close>

theorem duplicate_id_not_rejected:
  "distinct (node_ids active_root) \<and>
   node_ids (handleExpandMap repeats_root active_root) = [''root'', ''root''] \<and>
   \<not> distinct (node_ids (handleExpandMap repeats_root active_root))"
  by (simp add: node_ids_def active_root_def handleNodeClick_def initial_state_def
      INITIAL_NODE_def repeats_root_def root_again_def marx_def expandConcept_def or_empty_def
      handleExpandMap_def handleExpandMap_commit_def handleExpandMap_begin_def Let_def)

text \<open>
  C1, amended. Node insertions (expansion commits and accepted branch suggestions) append
  every supplied node without any duplicate check. Along every sequence of insertions the
  nodes already present keep their position and all their fields; and the node list of the
  result is free of duplicate ids exactly when it was so at the start and every step
  appended only pairwise different ids that were not yet in the node list.
\<close>

theorem insertion_appends_unchecked:
  assumes "list_all is_insertion ops"
  shows "take (length (nodes s)) (nodes (run ops s)) = nodes s \<and>
         (distinct (node_ids (run ops s)) \<longleftrightarrow> distinct (node_ids s) \<and> fresh_run ops s)"
  using assms by (simp add: take_run_insertions distinct_run)

theorem insertion_appends_unchecked_witness:
  "list_all is_insertion [Expand only_marx] \<and>
   nodes (run [Expand only_marx] active_root) = [INITIAL_NODE, marx] \<and>
   fresh_run [Expand only_marx] active_root \<and>
   distinct (node_ids (run [Expand only_marx] active_root))"
proof -
  have n: "nodes (run [Expand only_marx] active_root) = [INITIAL_NODE, marx]"
    by (simp add: active_root_def handleNodeClick_def initial_state_def only_marx_def
        marx_def expandConcept_def or_empty_def handleExpandMap_def
        handleExpandMap_commit_def handleExpandMap_begin_def Let_def)
  have f: "fresh_run [Expand only_marx] active_root"
    by (simp add: node_ids_def active_root_def handleNodeClick_def initial_state_def
        only_marx_def marx_def INITIAL_NODE_def expandConcept_def or_empty_def)
  have d: "distinct (node_ids active_root)"
    by (simp add: node_ids_def active_root_def handleNodeClick_def initial_state_def)
  show ?thesis
    using insertion_appends_unchecked [of "[Expand only_marx]" active_root] n f d by simp
qed

section \<open>Link batches\<close>

lemma links_app_step: "links (app_step op s) = links s @ appended_links op s"
  by (cases op; cases "activeNode s")
     (simp_all add: handleExpandMap_def handleExpandMap_commit_def handleExpandMap_begin_def
        handleBranchEvolution_def handleUpdateScore_def handleCompleteDrill_def
        handleNodeClick_def Let_def)

lemma node_ids_grow: "set (node_ids s) \<subseteq> set (node_ids (app_step op s))"
  by (simp add: node_ids_app_step)

lemma links_ok_app_step:
  assumes "links_ok s"
  shows "links_ok (app_step op s) \<longleftrightarrow>
           list_all (\<lambda>l. source l \<in> set (node_ids (app_step op s)) \<and>
                         target l \<in> set (node_ids (app_step op s)))
                    (appended_links op s)"
proof -
  have "list_all (\<lambda>l. source l \<in> set (node_ids (app_step op s)) \<and>
                       target l \<in> set (node_ids (app_step op s))) (links s)"
    using assms node_ids_grow [of s op] by (auto simp: links_ok_def list_all_iff)
  then show ?thesis
    by (simp add: links_ok_def [of "app_step op s"] links_app_step)
qed

lemma fallback_links_ok:
  assumes "nid an \<in> set (node_ids s)"
  shows "list_all (\<lambda>l. source l \<in> set (node_ids s @ map nid ns) \<and>
                        target l \<in> set (node_ids s @ map nid ns))
                  (fallback_links an ns)"
  using assms by (simp add: fallback_links_def list_all_iff)

lemma anchored_links_ok:
  assumes ok: "links_ok s"
    and act: "activeNode s = Some an"
    and mem: "nid an \<in> set (node_ids s)"
    and kind: "(\<exists>r. op = Expand r \<and> snd (expandConcept r) = []) \<or>
               (\<exists>suggestion now. op = BranchEvolution suggestion now)"
  shows "links_ok (app_step op s)"
proof -
  let ?ids = "node_ids s @ map nid (inserted_nodes op s)"
  have "list_all (\<lambda>l. source l \<in> set ?ids \<and> target l \<in> set ?ids) (appended_links op s)"
    using kind
  proof (elim disjE exE conjE)
    fix r
    assume "op = Expand r" and "snd (expandConcept r) = []"
    then show ?thesis
      using act fallback_links_ok [OF mem, of "fst (expandConcept r)"]
      by (simp add: connectedLinks_def)
  next
    fix suggestion now
    assume "op = BranchEvolution suggestion now"
    then show ?thesis
      using act mem by (simp add: evolved_link_def evolved_node_def)
  qed
  then show ?thesis
    using links_ok_app_step [OF ok, of op] by (simp only: node_ids_app_step)
qed

text \<open>
  C2 as stated fails: a batch holding a link from the unknown id \<^verbatim>\<open>ghost\<close> is committed
  whole, so the committed graph then has a link whose source is not a node id (and the link
  force, given this graph, throws instead of laying it out).
\<close>

theorem dangling_link_not_dropped:
  "links_ok active_root \<and>
   map source (links (handleExpandMap dangling_link active_root)) = [''ghost'', ''root''] \<and>
   node_ids (handleExpandMap dangling_link active_root) = [''root'', ''marx''] \<and>
   \<not> links_ok (handleExpandMap dangling_link active_root) \<and>
   forceLink_initialize (nodes (handleExpandMap dangling_link active_root))
                        (map link_object (links (handleExpandMap dangling_link active_root)))
     = Inl ''node not found: ghost''"
  by (simp add: links_ok_def node_ids_def active_root_def handleNodeClick_def
      initial_state_def INITIAL_NODE_def dangling_link_def marx_def expandConcept_def
      or_empty_def handleExpandMap_def handleExpandMap_commit_def handleExpandMap_begin_def
      connectedLinks_def nodeById_def resolve_def link_object_def Let_def)

text \<open>
  C2, amended. Every link of a committed batch is appended, in order and without any check
  of its endpoints. Hence, from a graph whose links all have both endpoints in the node
  list, an operation leads to such a graph again exactly when every link it appends has both
  endpoints among the node ids of the result. This is always so for the links the
  application builds itself from an active node that is in the node list: the fallback links
  of an expansion that delivered no links, and the link of an accepted branch suggestion.
\<close>

theorem links_appended_unfiltered:
  assumes "links_ok s"
  shows "links (app_step op s) = links s @ appended_links op s \<and>
         (links_ok (app_step op s) \<longleftrightarrow>
            list_all (\<lambda>l. source l \<in> set (node_ids (app_step op s)) \<and>
                          target l \<in> set (node_ids (app_step op s)))
                     (appended_links op s)) \<and>
         (\<forall>an. activeNode s = Some an \<and> nid an \<in> set (node_ids s) \<and>
               ((\<exists>r. op = Expand r \<and> snd (expandConcept r) = []) \<or>
                (\<exists>suggestion now. op = BranchEvolution suggestion now))
               \<longrightarrow> links_ok (app_step op s))"
  using links_app_step [of op s] links_ok_app_step [OF assms, of op]
    anchored_links_ok [OF assms, of _ op]
  by blast

theorem links_appended_unfiltered_witness:
  "links_ok active_root \<and>
   activeNode active_root = Some INITIAL_NODE \<and>
   nid INITIAL_NODE \<in> set (node_ids active_root) \<and>
   snd (expandConcept only_marx) = [] \<and>
   links (app_step (Expand only_marx) active_root)
     = [\<lparr>source = ''root'', target = ''marx'', relation = RELATES_TO\<rparr>] \<and>
   links_ok (app_step (Expand only_marx) active_root)"
proof -
  have ok: "links_ok active_root"
    by (simp add: links_ok_def active_root_def handleNodeClick_def initial_state_def)
  have act: "activeNode active_root = Some INITIAL_NODE"
    by (simp add: active_root_def handleNodeClick_def)
  have mem: "nid INITIAL_NODE \<in> set (node_ids active_root)"
    by (simp add: node_ids_def active_root_def handleNodeClick_def initial_state_def)
  have nol: "snd (expandConcept only_marx) = []"
    by (simp add: only_marx_def expandConcept_def or_empty_def)
  have ls: "links (app_step (Expand only_marx) active_root)
              = [\<lparr>source = ''root'', target = ''marx'', relation = RELATES_TO\<rparr>]"
    by (simp add: active_root_def handleNodeClick_def initial_state_def INITIAL_NODE_def
        only_marx_def marx_def expandConcept_def or_empty_def handleExpandMap_def
        handleExpandMap_commit_def handleExpandMap_begin_def connectedLinks_def
        fallback_links_def Let_def)
  show ?thesis
    using links_appended_unfiltered [OF ok, of "Expand only_marx"] ok act mem nol ls
    by auto
qed

section \<open>Timeline projection\<close>

lemma timeScale_affine:
  "timeScale width v = (- width / 2 + 50) + (v - 1800) * ((width - 100) / 225)"
  by (simp add: timeScale_def scaleLinear_def interpolateNumber_def normalize_def field_simps)

lemma timeScale_mono:
  assumes "100 \<le> width" and "u \<le> v"
  shows "timeScale width u \<le> timeScale width v"
proof -
  have "0 \<le> (width - 100) / 225" using assms(1) by simp
  then have "(u - 1800) * ((width - 100) / 225) \<le> (v - 1800) * ((width - 100) / 225)"
    using assms(2) by (intro mult_right_mono) simp_all
  then show ?thesis by (simp add: timeScale_affine)
qed

text \<open>
  C3 as stated fails: the scale is not clamped. At a viewport width of 800 the range is
  [-350, 350], yet a node of the year 2250 is sent to 1050 and one of the year 1575 to
  -1050.
\<close>

theorem timeScale_not_clamped:
  "forceX_target timeline 800 (marx\<lparr>year := Some 2250\<rparr>) = 1050 \<and>
   timeScale 800 2025 = 350 \<and>
   forceX_target timeline 800 (marx\<lparr>year := Some 1575\<rparr>) = - 1050 \<and>
   timeScale 800 1800 = - 350"
  by (simp add: forceX_target_def year_or_2000_def timeScale_def scaleLinear_def
      interpolateNumber_def normalize_def)

text \<open>
  C3, amended. In Timeline mode, for a viewport at least 100 wide, the year-to-x mapping is
  the monotonic linear map that sends the domain [1800, 2025] to
  [-width/2 + 50, width/2 - 50]; it is not clamped, years outside the domain are
  extrapolated along the same line. Consequently, for any two nodes whose years, read with
  the fallback 2000 for an absent or zero year, satisfy year(a) < year(b), the target
  x-coordinate assigned to a is at most the one assigned to b.
\<close>

theorem timeline_monotone_unclamped:
  assumes "100 \<le> width"
  shows "timeScale width 1800 = - width / 2 + 50 \<and>
         timeScale width 2025 = width / 2 - 50 \<and>
         (\<forall>u v. u \<le> v \<longrightarrow> timeScale width u \<le> timeScale width v) \<and>
         (\<forall>v. timeScale width v = - width / 2 + 50 + (v - 1800) * ((width - 100) / 225)) \<and>
         (year_or_2000 (year a) < year_or_2000 (year b) \<longrightarrow>
            forceX_target timeline width a \<le> forceX_target timeline width b)"
proof -
  have ord: "year_or_2000 (year a) < year_or_2000 (year b) \<longrightarrow>
            forceX_target timeline width a \<le> forceX_target timeline width b"
    using timeScale_mono [OF assms, of "of_int (year_or_2000 (year a))" "of_int (year_or_2000 (year b))"]
    by (simp add: forceX_target_def)
  have mono: "\<forall>u v. u \<le> v \<longrightarrow> timeScale width u \<le> timeScale width v"
    using timeScale_mono [OF assms] by blast
  have lo: "timeScale width 1800 = - width / 2 + 50"
    by (simp add: timeScale_affine)
  have hi: "timeScale width 2025 = width / 2 - 50"
    by (simp add: timeScale_affine field_simps)
  have aff: "\<forall>v. timeScale width v = - width / 2 + 50 + (v - 1800) * ((width - 100) / 225)"
    by (simp add: timeScale_affine)
  from lo hi mono aff ord show ?thesis by blast
qed

theorem timeline_monotone_unclamped_witness:
  "(100::real) \<le> 800 \<and>
   year_or_2000 (year marx) < year_or_2000 (year weber) \<and>
   timeScale 800 1800 = - 350 \<and> timeScale 800 2025 = 350 \<and>
   forceX_target timeline 800 marx \<le> forceX_target timeline 800 weber"
proof -
  have w: "(100::real) \<le> 800" by simp
  have y: "year_or_2000 (year marx) < year_or_2000 (year weber)"
    by (simp add: year_or_2000_def marx_def weber_def)
  show ?thesis
    using timeline_monotone_unclamped [OF w, of marx weber] w y by simp
qed

text \<open>
  C4 as stated fails: at a viewport width of 800 a node without a year is sent to 2450/9
  (about 272), left of the right edge 350 of the range.
\<close>

theorem missing_year_not_at_edge:
  "forceX_target timeline 800 (marx\<lparr>year := None\<rparr>) = 2450 / 9 \<and>
   timeScale 800 2025 = 350 \<and>
   forceX_target timeline 800 (marx\<lparr>year := None\<rparr>) < timeScale 800 2025"
  by (simp add: forceX_target_def year_or_2000_def timeScale_def scaleLinear_def
      interpolateNumber_def normalize_def)

text \<open>
  C4, amended. For every node whose year is absent, the Timeline projection uses the
  fallback year 2000: the node is placed where the year 2000 is, eight ninths of the way
  from the left edge of the range to its right edge, hence strictly inside the range for a
  viewport wider than 100. A node evolved from an active node without a year gets the year
  2000 as well.
\<close>

theorem missing_year_at_2000:
  assumes "year d = None"
  shows "forceX_target timeline width d = timeScale width 2000 \<and>
         timeScale width 2000 = timeScale width 1800 + 8 / 9 * (timeScale width 2025 - timeScale width 1800) \<and>
         (100 < width \<longrightarrow> timeScale width 1800 < forceX_target timeline width d \<and>
                            forceX_target timeline width d < timeScale width 2025) \<and>
         year (evolved_node d suggestion now) = Some 2000"
proof -
  have t: "forceX_target timeline width d = timeScale width 2000"
    using assms by (simp add: forceX_target_def year_or_2000_def)
  have frac: "timeScale width 2000
                = timeScale width 1800 + 8 / 9 * (timeScale width 2025 - timeScale width 1800)"
    by (simp add: timeScale_affine field_simps)
  have inside: "100 < width \<longrightarrow> timeScale width 1800 < timeScale width 2000 \<and>
                  timeScale width 2000 < timeScale width 2025"
    by (simp add: timeScale_affine field_simps)
  have inh: "year (evolved_node d suggestion now) = Some 2000"
    using assms by (simp add: evolved_node_def year_or_2000_def)
  from t frac inside inh show ?thesis by simp
qed

theorem missing_year_at_2000_witness:
  "year (marx\<lparr>year := None\<rparr>) = None \<and>
   forceX_target timeline 800 (marx\<lparr>year := None\<rparr>) = timeScale 800 2000 \<and>
   timeScale 800 1800 < forceX_target timeline 800 (marx\<lparr>year := None\<rparr>) \<and>
   forceX_target timeline 800 (marx\<lparr>year := None\<rparr>) < timeScale 800 2025"
proof -
  have n: "year (marx\<lparr>year := None\<rparr>) = None" by simp
  show ?thesis
    using missing_year_at_2000 [OF n, of 800] by (simp add: timeScale_affine)
qed

section \<open>Drag gestures and pins\<close>

lemma tick_node_pinned_x:
  "fx d = Some c \<Longrightarrow> fx (tick_node e vd d) = Some c \<and> nx (tick_node e vd d) = Some c"
  by (simp add: tick_node_def integrate_def apply_forces_def Let_def split: option.splits)

lemma tick_node_pinned_y:
  "fy d = Some c \<Longrightarrow> fy (tick_node e vd d) = Some c \<and> ny (tick_node e vd d) = Some c"
  by (simp add: tick_node_def integrate_def apply_forces_def Let_def split: option.splits)

lemma tick_node_frame:
  "nid (tick_node e vd d) = nid d \<and> mastery (tick_node e vd d) = mastery d \<and>
   (fx d = None \<longrightarrow> fx (tick_node e vd d) = None) \<and>
   (fy d = None \<longrightarrow> fy (tick_node e vd d) = None)"
  by (simp add: tick_node_def integrate_def apply_forces_def Let_def split: option.splits)

lemma tick_node_free_x:
  "fx d = None \<Longrightarrow>
     nx (tick_node e vd d) = map_option (\<lambda>c. c + shift_x e + (vx d + dvx e) * vd) (nx d)"
  by (cases "nx d")
     (simp_all add: tick_node_def integrate_def apply_forces_def Let_def split: option.splits)

lemma map_run_append: "map_run (evs @ evs') P = map_run evs' (map_run evs P)"
  by (induction evs arbitrary: P) simp_all

text \<open>On the object a gesture holds, the handlers do what their names say.\<close>

lemma gesture_start_pins_object:
  assumes "k < length (mounts P)" and "a \<in> set (bound (mounts P ! k))"
  shows "fx (objects (map_step (GestureStart k a px py) P) a) = nx (objects P a) \<and>
         fy (objects (map_step (GestureStart k a px py) P) a) = ny (objects P a) \<and>
         a \<in> set (gestures (mounts (map_step (GestureStart k a px py) P) ! k))"
  using assms by (simp add: Let_def dragstarted_def)

lemma gesture_move_pins_object:
  assumes "k < length (mounts P)" and "a \<in> set (gestures (mounts P ! k))"
  shows "fx (objects (map_step (GestureMove k a px py) P) a) = Some px \<and>
         fy (objects (map_step (GestureMove k a px py) P) a) = Some py"
  using assms by (simp add: Let_def dragged_def)

lemma gesture_end_clears_object:
  assumes "k < length (mounts P)" and "a \<in> set (gestures (mounts P ! k))"
  shows "fx (objects (map_step (GestureEnd k a px py) P) a) = None \<and>
         fy (objects (map_step (GestureEnd k a px py) P) a) = None"
  using assms by (simp add: Let_def dragended_def)

text \<open>
  The update of the score on the objects yields the node values that \<^verbatim>\<open>handleUpdateScore\<close>
  yields on the values; the copies are new objects.
\<close>

lemma raise_mastery_frame:
  "b < fresh \<Longrightarrow> fst (snd (raise_mastery k as h fresh)) b = h b"
  by (induction as arbitrary: h fresh) (simp_all add: Let_def)

lemma node_value_mastery:
  "node_value (d\<lparr>mastery := m\<rparr>) = (node_value d)\<lparr>mastery := m\<rparr> \<and>
   nid (node_value d) = nid d \<and> mastery (node_value d) = mastery d"
  by (simp add: node_value_def ConceptNode.defs)

lemma raise_mastery_values:
  assumes "\<forall>a\<in>set as. a < fresh"
  shows "map (\<lambda>a. node_value (fst (snd (raise_mastery k as h fresh)) a))
             (fst (raise_mastery k as h fresh))
         = map (\<lambda>n. if nid n = k then n\<lparr>mastery := min 100 (mastery n + 25)\<rparr> else n)
               (map (\<lambda>a. node_value (h a)) as)"
  using assms
proof (induction as arbitrary: h fresh)
  case Nil
  show ?case by simp
next
  case (Cons a as)
  then have a: "a < fresh" and rest: "\<forall>b\<in>set as. b < fresh" by simp_all
  let ?f = "\<lambda>n. if nid n = k then n\<lparr>mastery := min 100 (mastery n + 25)\<rparr> else n"
  show ?case
  proof (cases "nid (h a) = k")
    case True
    define h1 where "h1 = h(fresh := (h a)\<lparr>mastery := min 100 (mastery (h a) + 25)\<rparr>)"
    define r where "r = raise_mastery k as h1 (fresh + 1)"
    have unfold: "raise_mastery k (a # as) h fresh = (fresh # fst r, snd r)"
      using True by (simp add: r_def h1_def Let_def)
    have lt: "\<forall>b\<in>set as. b < fresh + 1" using rest by auto
    have ih: "map (\<lambda>b. node_value (fst (snd r) b)) (fst r)
                = map ?f (map (\<lambda>b. node_value (h1 b)) as)"
      unfolding r_def by (rule Cons.IH [OF lt])
    have same: "map (\<lambda>b. node_value (h1 b)) as = map (\<lambda>b. node_value (h b)) as"
      using rest by (auto simp: h1_def)
    have "fst (snd r) fresh = h1 fresh"
      unfolding r_def by (rule raise_mastery_frame) simp
    then have hd: "node_value (fst (snd r) fresh) = ?f (node_value (h a))"
      using True by (simp add: h1_def node_value_mastery)
    show ?thesis
      unfolding unfold using ih same hd by simp
  next
    case False
    define r where "r = raise_mastery k as h fresh"
    have unfold: "raise_mastery k (a # as) h fresh = (a # fst r, snd r)"
      using False by (simp add: r_def Let_def)
    have ih: "map (\<lambda>b. node_value (fst (snd r) b)) (fst r)
                = map ?f (map (\<lambda>b. node_value (h b)) as)"
      unfolding r_def by (rule Cons.IH [OF rest])
    have "fst (snd r) a = h a"
      unfolding r_def using a by (rule raise_mastery_frame)
    then have hd: "node_value (fst (snd r) a) = ?f (node_value (h a))"
      using False by (simp add: node_value_mastery)
    show ?thesis
      unfolding unfold using ih hd by simp
  qed
qed

lemma handleUpdateScore_objects_values:
  assumes alloc: "\<forall>a\<in>set (nodes_prop P). a < next_addr P"
    and ns: "nodes s = page_nodes P"
    and act: "activeNode s = map_option (\<lambda>a. node_value (objects P a)) (active_ref P)"
  shows "page_nodes (handleUpdateScore_objects score P) = nodes (handleUpdateScore score s)"
proof (cases "active_ref P")
  case None
  then show ?thesis
    using ns act by (simp add: handleUpdateScore_objects_def handleUpdateScore_def Let_def)
next
  case (Some an)
  show ?thesis
  proof (cases "7 \<le> score \<and> mastery (objects P an) < 100")
    case True
    then show ?thesis
      using Some ns act
        raise_mastery_values [OF alloc, of "nid (objects P an)" "objects P"]
      by (simp add: handleUpdateScore_objects_def handleUpdateScore_def Let_def page_nodes_def
          node_value_mastery)
  next
    case False
    then show ?thesis
      using Some ns act
      by (auto simp: handleUpdateScore_objects_def handleUpdateScore_def Let_def
          node_value_mastery)
  qed
qed

lemmas trace_defs =
  two_nodes_def run_effect_def cleanup_def
  handleUpdateScore_objects_def append_nodes_def initializeNode_def
  dragstarted_def dragged_def dragended_def restart_def set_alphaTarget_def stop_def
  fresh_simulation_def on_a_line_def
  sim_root_def sim_marx_def marx_def weber_def INITIAL_NODE_def ConceptNode.defs SimNode.defs Let_def

text \<open>
  C6. The drag handlers set and clear the pin of the node object the gesture began on. The
  claim that every drag ends with the node unpinned and force-driven again fails when a
  debate score arrives during a drag of the active node: \<^verbatim>\<open>handleUpdateScore\<close> puts a copy
  of the pinned node into the array, the effect runs again over the copy, and the end of
  the gesture clears the pin of the old object only. After the trace below no gesture is in
  progress, the old object is unpinned, and the node of the array is still pinned at
  (3, 4), where the tick of the new simulation keeps it.
\<close>

theorem pin_survives_drag_end:
  "nodes_prop (map_run drag_across_score two_nodes) = [0, 2] \<and>
   nid (objects (map_run drag_across_score two_nodes) 2) = ''marx'' \<and>
   map gestures (mounts (map_run drag_across_score two_nodes)) = [[], []] \<and>
   fx (objects (map_run drag_across_score two_nodes) 1) = None \<and>
   fx (objects (map_run drag_across_score two_nodes) 2) = Some 3 \<and>
   fy (objects (map_run drag_across_score two_nodes) 2) = Some 4 \<and>
   nx (objects (map_run drag_across_score two_nodes) 2) = Some 3 \<and>
   ny (objects (map_run drag_across_score two_nodes) 2) = Some 4"
proof -
  define Q where "Q = map_run [Effect on_a_line, NodeClicked 1, GestureStart 0 1 12 (- 7),
      GestureMove 0 1 3 4, ScoreUpdated 9, Cleanup, Effect on_a_line,
      GestureMove 0 1 5 6, GestureEnd 0 1 5 6] two_nodes"
  have q: "nodes_prop Q = [0, 2] \<and> length (mounts Q) = 2 \<and>
           map gestures (mounts Q) = [[], []] \<and> gestures (mounts Q ! 1) = [] \<and>
           bound (mounts Q ! 1) = [0, 2] \<and> running (simulation (mounts Q ! 1)) \<and>
           fx (objects Q 1) = None \<and> nid (objects Q 2) = ''marx'' \<and>
           fx (objects Q 2) = Some 3 \<and> fy (objects Q 2) = Some 4"
    unfolding Q_def by (simp add: trace_defs)
  have run: "map_run drag_across_score two_nodes = map_step (TimerFire 1 (\<lambda>a. push_right)) Q"
    unfolding Q_def drag_across_score_def
    using map_run_append [of "[Effect on_a_line, NodeClicked 1, GestureStart 0 1 12 (- 7),
      GestureMove 0 1 3 4, ScoreUpdated 9, Cleanup, Effect on_a_line,
      GestureMove 0 1 5 6, GestureEnd 0 1 5 6]" "[TimerFire 1 (\<lambda>a. push_right)]" two_nodes]
    by simp
  show ?thesis
    unfolding run
    using q
      tick_node_pinned_x [of "objects Q 2" 3 push_right "velocityDecay (simulation (mounts Q ! 1))"]
      tick_node_pinned_y [of "objects Q 2" 4 push_right "velocityDecay (simulation (mounts Q ! 1))"]
      tick_node_frame [of push_right "velocityDecay (simulation (mounts Q ! 1))" "objects Q 2"]
    by (simp add: Let_def map_update)
qed

text \<open>
  The same drag across a re-run of the effect that an insertion of a node causes, which
  keeps the node objects: the end of the gesture unpins the node of the array, and the next
  tick moves it by what the forces give it (from 3 by the shift 5 and the decayed velocity
  (3 + 40) * 0.6).
\<close>

lemma pin_cleared_without_copy:
  "nodes_prop (map_run drag_across_insertion two_nodes) = [0, 1, 2] \<and>
   map gestures (mounts (map_run drag_across_insertion two_nodes)) = [[], []] \<and>
   fx (objects (map_run drag_across_insertion two_nodes) 1) = None \<and>
   fy (objects (map_run drag_across_insertion two_nodes) 1) = None \<and>
   nx (objects (map_run drag_across_insertion two_nodes) 1) = Some (169 / 5)"
proof -
  define Q where "Q = map_run [Effect on_a_line, NodeClicked 1, GestureStart 0 1 12 (- 7),
      GestureMove 0 1 3 4, NodesAppended [weber], Cleanup, Effect on_a_line,
      GestureMove 0 1 5 6, GestureEnd 0 1 5 6] two_nodes"
  have q: "nodes_prop Q = [0, 1, 2] \<and> length (mounts Q) = 2 \<and>
           map gestures (mounts Q) = [[], []] \<and> gestures (mounts Q ! 1) = [] \<and>
           bound (mounts Q ! 1) = [0, 1, 2] \<and> running (simulation (mounts Q ! 1)) \<and>
           fx (objects Q 1) = None \<and> fy (objects Q 1) = None \<and>
           nx (objects Q 1) = Some 3 \<and> vx (objects Q 1) = 3"
    unfolding Q_def by (simp add: trace_defs)
  have run: "map_run drag_across_insertion two_nodes
               = map_step (TimerFire 1 (\<lambda>a. push_right)) Q"
    unfolding Q_def drag_across_insertion_def
    using map_run_append [of "[Effect on_a_line, NodeClicked 1, GestureStart 0 1 12 (- 7),
      GestureMove 0 1 3 4, NodesAppended [weber], Cleanup, Effect on_a_line,
      GestureMove 0 1 5 6, GestureEnd 0 1 5 6]" "[TimerFire 1 (\<lambda>a. push_right)]" two_nodes]
    by simp
  have vd: "velocityDecay (simulation (mounts Q ! Suc 0)) = 3 / 5"
    unfolding Q_def by (simp add: trace_defs)
  have moved: "nx (tick_node push_right (3 / 5) (objects Q 1)) = Some (169 / 5)"
    using q tick_node_free_x [of "objects Q 1" push_right "3 / 5"]
    by (simp add: push_right_def)
  show ?thesis
    unfolding run
    using q moved tick_node_frame [of push_right "3 / 5" "objects Q 1"]
    by (simp add: Let_def map_update vd)
qed

section \<open>Relations of laid-out links\<close>


text \<open>An endpoint that an earlier layout resolved is kept, whatever the node list holds.\<close>

lemma forceLink_keeps_objects:
  "forceLink_initialize ns [\<lparr>source_end = Obj a, target_end = Obj b, link_relation = r\<rparr>]
     = Inr [\<lparr>source_end = Obj a, target_end = Obj b, link_relation = r\<rparr>]"
  by (simp add: resolve_def)



section \<open>Teardown\<close>

lemma stopped_step:
  assumes "k < length (mounts P)" and "\<not> running (simulation (mounts P ! k))"
    and "after_teardown k ev"
  shows "k < length (mounts (map_step ev P)) \<and>
         \<not> running (simulation (mounts (map_step ev P) ! k)) \<and>
         ticks (simulation (mounts (map_step ev P) ! k)) = ticks (simulation (mounts P ! k))"
proof (cases ev)
  case (GestureStart j a px py)
  then show ?thesis
    using assms by (simp add: Let_def nth_list_update)
next
  case (GestureMove j a px py)
  then show ?thesis
    using assms by (simp add: Let_def nth_list_update dragged_def)
next
  case (GestureEnd j a px py)
  then show ?thesis
    using assms by (simp add: Let_def nth_list_update dragended_def set_alphaTarget_def)
next
  case (TimerFire j e)
  then show ?thesis
    using assms by (auto simp: Let_def nth_list_update)
next
  case Cleanup
  then show ?thesis
    using assms by (auto simp: cleanup_def nth_list_update stop_def last_conv_nth)
next
  case (Effect spiral)
  then show ?thesis
    using assms by (simp add: run_effect_def nth_append)
next
  case (NodeClicked a)
  then show ?thesis using assms by simp
next
  case (ScoreUpdated score)
  then show ?thesis
    using assms by (simp add: handleUpdateScore_objects_def Let_def split: option.splits)
next
  case (NodesAppended ns)
  then show ?thesis using assms by (simp add: append_nodes_def Let_def)
qed

lemma stopped_run:
  "k < length (mounts P) \<Longrightarrow> \<not> running (simulation (mounts P ! k)) \<Longrightarrow>
   list_all (after_teardown k) evs \<Longrightarrow>
     k < length (mounts (map_run evs P)) \<and>
     \<not> running (simulation (mounts (map_run evs P) ! k)) \<and>
     ticks (simulation (mounts (map_run evs P) ! k)) = ticks (simulation (mounts P ! k))"
proof (induction evs arbitrary: P)
  case Nil
  then show ?case by simp
next
  case (Cons ev evs)
  then have a: "after_teardown k ev" and r: "list_all (after_teardown k) evs" by simp_all
  from stopped_step [OF Cons.prems(1) Cons.prems(2) a]
    Cons.IH [of "map_step ev P"] r
  show ?case by simp
qed

lemma cleanup_stops:
  assumes "mounts P \<noteq> []"
  shows "length (mounts (map_step Cleanup P)) = length (mounts P) \<and>
         \<not> running (simulation (mounts (map_step Cleanup P) ! (length (mounts P) - 1))) \<and>
         ticks (simulation (mounts (map_step Cleanup P) ! (length (mounts P) - 1)))
           = ticks (simulation (last (mounts P)))"
  using assms by (simp add: cleanup_def stop_def)

lemma commit_ignores_viewMode:
  "nodes (handleExpandMap_commit an res (setViewMode v s)) = nodes (handleExpandMap_commit an res s) \<and>
   links (handleExpandMap_commit an res (setViewMode v s)) = links (handleExpandMap_commit an res s)"
  by (simp add: handleExpandMap_commit_def setViewMode_def Let_def)

text \<open>
  C8 as stated fails: an expansion requested on the root node is still in flight when the
  user switches to the list view, which unmounts the map; when its result arrives the new
  node is committed to the graph, not discarded.
\<close>

theorem in_flight_expansion_committed:
  "viewMode pending_in_list_view = ListView \<and>
   nodes pending_in_list_view = [INITIAL_NODE] \<and>
   nodes (handleExpandMap_commit INITIAL_NODE (expandConcept only_marx) pending_in_list_view)
     = [INITIAL_NODE, marx]"
  by (simp add: pending_in_list_view_def setViewMode_def active_root_def handleNodeClick_def
      initial_state_def only_marx_def marx_def expandConcept_def or_empty_def
      handleExpandMap_commit_def handleExpandMap_begin_def Let_def)

text \<open>
  C8, amended. After view teardown (the component cleanup stops the simulation of the
  latest run of the effect), that simulation fires no further ticks, whatever timer
  callbacks and moves or ends of gestures in progress still arrive, and whatever happens
  in later runs of the effect. A mutation in flight at teardown time is not discarded: an
  expansion result that resolves afterwards is committed to the graph exactly as it would
  have been without the teardown.
\<close>

theorem teardown_stops_ticks_only:
  assumes "mounts P \<noteq> []"
    and "list_all (after_teardown (length (mounts P) - 1)) evs"
  shows "\<not> running (simulation
             (mounts (map_run evs (map_step Cleanup P)) ! (length (mounts P) - 1))) \<and>
         ticks (simulation
             (mounts (map_run evs (map_step Cleanup P)) ! (length (mounts P) - 1)))
           = ticks (simulation (last (mounts P))) \<and>
         nodes (handleExpandMap_commit an res (setViewMode ListView s))
           = nodes (handleExpandMap_commit an res s) \<and>
         links (handleExpandMap_commit an res (setViewMode ListView s))
           = links (handleExpandMap_commit an res s)"
proof -
  let ?k = "length (mounts P) - 1"
  have k: "?k < length (mounts (map_step Cleanup P))"
    using assms(1) cleanup_stops [OF assms(1)] by simp
  have stopped: "\<not> running (simulation (mounts (map_step Cleanup P) ! ?k))"
    using cleanup_stops [OF assms(1)] by simp
  have t: "ticks (simulation (mounts (map_step Cleanup P) ! ?k))
             = ticks (simulation (last (mounts P)))"
    using cleanup_stops [OF assms(1)] by simp
  show ?thesis
    using stopped_run [OF k stopped assms(2)] t commit_ignores_viewMode [of an res ListView s]
    by simp
qed

theorem teardown_stops_ticks_only_witness:
  "mounts dragging \<noteq> [] \<and>
   list_all (after_teardown (length (mounts dragging) - 1))
     [TimerFire 0 (\<lambda>a. push_right), GestureMove 0 1 3 4, Effect on_a_line,
      GestureEnd 0 1 3 4, TimerFire 0 (\<lambda>a. push_right), TimerFire 1 (\<lambda>a. push_right)] \<and>
   gestures (last (mounts dragging)) = [1] \<and>
   ticks (simulation (last (mounts dragging))) = 1 \<and>
   ticks (simulation (mounts (map_run
       [TimerFire 0 (\<lambda>a. push_right), GestureMove 0 1 3 4, Effect on_a_line,
        GestureEnd 0 1 3 4, TimerFire 0 (\<lambda>a. push_right), TimerFire 1 (\<lambda>a. push_right)]
       (map_step Cleanup dragging)) ! 0)) = 1"
proof -
  have m: "length (mounts dragging) = 1 \<and> gestures (last (mounts dragging)) = [1] \<and>
           ticks (simulation (last (mounts dragging))) = 1"
    by (simp add: dragging_def two_nodes_def run_effect_def dragstarted_def restart_def
        set_alphaTarget_def fresh_simulation_def step_def stop_def Let_def)
  then have ne: "mounts dragging \<noteq> []" by auto
  have a: "list_all (after_teardown (length (mounts dragging) - 1))
     [TimerFire 0 (\<lambda>a. push_right), GestureMove 0 1 3 4, Effect on_a_line,
      GestureEnd 0 1 3 4, TimerFire 0 (\<lambda>a. push_right), TimerFire 1 (\<lambda>a. push_right)]"
    by simp
  show ?thesis
    using teardown_stops_ticks_only [OF ne a] m ne a by simp
qed

end
